theory Spec2Isabelle
  imports Main
begin

section \<open>Python values and strings\<close>

text \<open>
  The client of \<^verbatim>\<open>src/agent_client/cisco_agent.py\<close> works on Python strings, on
  \<^verbatim>\<open>None\<close> and on lists of strings. A string is a list of characters; a character
  stands for a code point below 256. Credentials default to \<^verbatim>\<open>None\<close> in the
  constructor, so they are values that are either \<^verbatim>\<open>None\<close> or a string.
\<close>

datatype pyval = PyNone | PyStr string

text \<open>
  The configuration argument of \<^verbatim>\<open>config_command\<close> is tested with
  \<^verbatim>\<open>isinstance(commands, str)\<close>: it is a single text block or a list of strings.
\<close>

datatype cmds = Text string | Lines "string list"

text \<open>
  \<^verbatim>\<open>str.strip()\<close> removes the characters Python counts as whitespace from both ends.
  Below 256 these are the code points 9 to 13, 28 to 32, 133 and 160.
\<close>

definition py_isspace :: "char \<Rightarrow> bool" where
  "py_isspace c =
     (let n = (of_char c :: nat)
      in (9 \<le> n \<and> n \<le> 13) \<or> (28 \<le> n \<and> n \<le> 32) \<or> n = 133 \<or> n = 160)"

definition strip :: "string \<Rightarrow> string" where
  "strip s = rev (dropWhile py_isspace (rev (dropWhile py_isspace s)))"

text \<open>
  \<^verbatim>\<open>s.split("\n")\<close>: the pieces between line feeds, in order; the empty string gives one
  empty piece. The first argument collects the current piece, reversed.
\<close>

fun split_nl_from :: "string \<Rightarrow> string \<Rightarrow> string list" where
  "split_nl_from cur [] = [rev cur]"
| "split_nl_from cur (c # cs) =
     (if c = CHR 0x0A then rev cur # split_nl_from [] cs
      else split_nl_from (c # cur) cs)"

definition split_nl :: "string \<Rightarrow> string list" where
  "split_nl s = split_nl_from [] s"

text \<open>
  \<^verbatim>\<open>str.splitlines()\<close>: the lines of a text, cut at every line boundary (line feed,
  carriage return, the pair carriage return and line feed, vertical tab, form feed, the
  separators 28 to 30 and 133), without the boundaries and without an empty last line.
\<close>

definition linebreak :: "char \<Rightarrow> bool" where
  "linebreak c =
     (let n = (of_char c :: nat)
      in (10 \<le> n \<and> n \<le> 13) \<or> (28 \<le> n \<and> n \<le> 30) \<or> n = 133)"

fun splitlines_from :: "string \<Rightarrow> string \<Rightarrow> string list" where
  "splitlines_from cur [] = (if cur = [] then [] else [rev cur])"
| "splitlines_from cur [c] =
     (if linebreak c then [rev cur] else [rev (c # cur)])"
| "splitlines_from cur (c # d # cs) =
     (if c = CHR 0x0D \<and> d = CHR 0x0A then rev cur # splitlines_from [] cs
      else if linebreak c then rev cur # splitlines_from [] (d # cs)
      else splitlines_from (c # cur) (d # cs))"

definition splitlines :: "string \<Rightarrow> string list" where
  "splitlines s = splitlines_from [] s"

text \<open>\<^verbatim>\<open>command.startswith("ping")\<close> is a prefix test.\<close>

definition startswith :: "string \<Rightarrow> string \<Rightarrow> bool" where
  "startswith s p = (take (length p) s = p)"

section \<open>Normalization of configuration commands\<close>

text \<open>
  Lines 93 to 97 of \<^verbatim>\<open>config_command\<close>:
  \<^verbatim>\<open>
  if isinstance(commands, str):
      commands = [command.strip() for command in commands.split("\n") if command.strip()]
  commands = [command.strip() for command in commands if command.strip()]
  \<close>
  A text block is split at line feeds, stripped and filtered; then every input, also the
  list just built, is stripped and filtered (once more).
\<close>

definition strip_nonblank :: "string list \<Rightarrow> string list" where
  "strip_nonblank commands = map strip (filter (\<lambda>command. strip command \<noteq> []) commands)"

definition normalize_commands :: "cmds \<Rightarrow> string list" where
  "normalize_commands commands =
     strip_nonblank
       (case commands of
          Text s \<Rightarrow> strip_nonblank (split_nl s)
        | Lines l \<Rightarrow> l)"

section \<open>The session library and the world\<close>

text \<open>
  The SSH library (netmiko) is outside the repository. The client calls it through
  \<^verbatim>\<open>ConnectHandler(**device_info)\<close>, \<^verbatim>\<open>enable()\<close>, \<^verbatim>\<open>send_command\<close>,
  \<^verbatim>\<open>send_config_set\<close> and \<^verbatim>\<open>disconnect()\<close>; each call returns or raises. The two
  exception classes the client names are kept apart from all others, each with its text.
\<close>

datatype exc =
    NetmikoTimeoutException string
  | NetmikoAuthenticationException string
  | OtherException string

record device_info =
  device_type :: string
  host :: pyval
  username :: pyval
  password :: pyval

text \<open>The keyword arguments the client passes, as it passes them.\<close>

datatype kwarg =
    Read_timeout nat
  | Expect_string string
  | Strip_prompt bool
  | Strip_command bool

datatype call =
    ConnectHandler device_info
  | Enable
  | Send_command string "kwarg list"
  | Send_config_set "string list" "kwarg list"
  | Disconnect

datatype reply = Ok string | Raise exc

text \<open>
  The library is any deterministic machine: from its state and a call it gives a reply
  and its next state. Nothing more is assumed about it, so every theorem below holds
  for every device and every behaviour of the library, faults at any call included.
\<close>

type_synonym 's library = "'s \<Rightarrow> call \<Rightarrow> reply \<times> 's"

datatype level = DEBUG | INFO | WARNING | ERROR

text \<open>
  One constructor for each message the client logs, with the values its f-string
  interpolates.
\<close>

datatype msg =
    Connecting_to pyval
  | Connected_to pyval
  | Sending_command string
  | Command_output
  | Line string
  | Disconnected_from pyval
  | Applying_commands cmds
  | No_valid_commands
  | Configuration_applied
  | Configuration_output string
  | Sending_ping string
  | Timeout_error_while cmds pyval exc
  | Authentication_error_while cmds pyval exc

record 's world =
  lib_state :: 's
  history :: "(call \<times> reply) list"
  logged :: "(level \<times> msg) list"

definition fresh :: "'s \<Rightarrow> 's world" where
  "fresh s = \<lparr>lib_state = s, history = [], logged = []\<rparr>"

definition invoke :: "'s library \<Rightarrow> call \<Rightarrow> 's world \<Rightarrow> reply \<times> 's world" where
  "invoke L c w =
     (case L (lib_state w) c of
        (r, s') \<Rightarrow> (r, w\<lparr>lib_state := s', history := history w @ [(c, r)]\<rparr>))"

definition logger :: "level \<Rightarrow> msg \<Rightarrow> 's world \<Rightarrow> 's world" where
  "logger lv m w = w\<lparr>logged := logged w @ [(lv, m)]\<rparr>"

text \<open>The exceptions the library raised, in order.\<close>

fun faults :: "(call \<times> reply) list \<Rightarrow> exc list" where
  "faults [] = []"
| "faults ((c, Raise e) # h) = e # faults h"
| "faults ((c, Ok v) # h) = faults h"

text \<open>
  A library without state, given by its reply to each call; concrete runs below use it
  with a device that answers, one that cannot be reached, and so on.
\<close>

definition device :: "(call \<Rightarrow> reply) \<Rightarrow> unit library" where
  "device f s c = (f c, s)"

section \<open>The client\<close>

record client =
  device_info_cisco :: device_info
  device_info_linux :: device_info
  api_key :: pyval

text \<open>
  \<^verbatim>\<open>__init__(self, HOST=None, USERNAME=None, PASSWORD=None)\<close>; the last argument is the
  value of \<^verbatim>\<open>os.getenv("API_KEY")\<close>.
\<close>

definition AgentCiscoClient :: "pyval \<Rightarrow> pyval \<Rightarrow> pyval \<Rightarrow> pyval \<Rightarrow> client" where
  "AgentCiscoClient HOST USERNAME PASSWORD env_api_key =
     \<lparr>device_info_cisco =
        \<lparr>device_type = ''cisco_ios'', host = HOST, username = USERNAME, password = PASSWORD\<rparr>,
      device_info_linux =
        \<lparr>device_type = ''linux'', host = HOST, username = USERNAME, password = PASSWORD\<rparr>,
      api_key = env_api_key\<rparr>"

text \<open>
  The three assignments that open every operation:
  \<^verbatim>\<open>self.device_info_cisco['host'] = HOST\<close> and the same for username and password.
\<close>

definition set_credentials :: "client \<Rightarrow> pyval \<Rightarrow> pyval \<Rightarrow> pyval \<Rightarrow> client" where
  "set_credentials self HOST USERNAME PASSWORD =
     self\<lparr>device_info_cisco :=
       (device_info_cisco self)\<lparr>host := HOST, username := USERNAME, password := PASSWORD\<rparr>\<rparr>"

text \<open>
  \<^verbatim>\<open>with ConnectHandler(**info) as connection: body\<close>. The constructor connects and may
  raise; then the body runs. The connection is its own context manager: on the way out,
  whether the body returned or raised, its exit closes the session by calling
  \<^verbatim>\<open>disconnect()\<close>, and an exception raised there replaces the body's outcome. The body also hands back the local variable \<^verbatim>\<open>commands\<close>, which
  the handlers of \<^verbatim>\<open>config_command\<close> log.
\<close>

definition with_ConnectHandler ::
  "'s library \<Rightarrow> device_info \<Rightarrow> ('s world \<Rightarrow> (exc + pyval) \<times> cmds \<times> 's world) \<Rightarrow>
   cmds \<Rightarrow> 's world \<Rightarrow> (exc + pyval) \<times> cmds \<times> 's world" where
  "with_ConnectHandler L info body commands w =
     (case invoke L (ConnectHandler info) w of
        (Raise e, w) \<Rightarrow> (Inl e, commands, w)
      | (Ok connection, w) \<Rightarrow>
          (case body w of
             (res, commands, w) \<Rightarrow>
               (case invoke L Disconnect w of
                  (Raise e, w) \<Rightarrow> (Inl e, commands, w)
                | (Ok u, w) \<Rightarrow> (res, commands, w))))"

text \<open>
  The two handlers every operation ends with:
  \<^verbatim>\<open>except NetmikoTimeoutException as e: ...; return "Timeout error"\<close> and
  \<^verbatim>\<open>except NetmikoAuthenticationException as e: ...; return "Authentication error"\<close>.
  Any other exception leaves the operation.
\<close>

definition except_netmiko ::
  "client \<Rightarrow> (exc + pyval) \<times> cmds \<times> 's world \<Rightarrow> (exc + pyval) \<times> 's world" where
  "except_netmiko self out =
     (case out of
        (Inl (NetmikoTimeoutException t), commands, w) \<Rightarrow>
          (Inr (PyStr ''Timeout error''),
           logger ERROR
             (Timeout_error_while commands (host (device_info_cisco self))
                (NetmikoTimeoutException t)) w)
      | (Inl (NetmikoAuthenticationException t), commands, w) \<Rightarrow>
          (Inr (PyStr ''Authentication error''),
           logger ERROR
             (Authentication_error_while commands (host (device_info_cisco self))
                (NetmikoAuthenticationException t)) w)
      | (Inl (OtherException t), commands, w) \<Rightarrow> (Inl (OtherException t), w)
      | (Inr v, commands, w) \<Rightarrow> (Inr v, w))"

subsection \<open>show_command\<close>

definition show_body ::
  "'s library \<Rightarrow> client \<Rightarrow> string \<Rightarrow> 's world \<Rightarrow> (exc + pyval) \<times> cmds \<times> 's world" where
  "show_body L self command w =
     (let w = logger INFO (Connected_to (host (device_info_cisco self))) w;
          w = logger INFO (Sending_command command) w
      in case invoke L (Send_command command [Read_timeout 20]) w of
           (Raise e, w) \<Rightarrow> (Inl e, Text command, w)
         | (Ok output, w) \<Rightarrow>
             (let w = logger DEBUG Command_output w;
                  w = fold (\<lambda>line. logger DEBUG (Line line)) (splitlines output) w
              in case invoke L Disconnect w of
                   (Raise e, w) \<Rightarrow> (Inl e, Text command, w)
                 | (Ok u, w) \<Rightarrow>
                     (Inr (PyStr output), Text command,
                      logger INFO (Disconnected_from (host (device_info_linux self))) w)))"

definition show_command ::
  "'s library \<Rightarrow> client \<Rightarrow> string \<Rightarrow> pyval \<Rightarrow> pyval \<Rightarrow> pyval \<Rightarrow> 's world \<Rightarrow>
   (exc + pyval) \<times> client \<times> 's world" where
  "show_command L self command HOST USERNAME PASSWORD w =
     (let self = set_credentials self HOST USERNAME PASSWORD;
          w = logger INFO (Connecting_to (host (device_info_cisco self))) w
      in case except_netmiko self
           (with_ConnectHandler L (device_info_cisco self) (show_body L self command)
              (Text command) w) of
           (res, w) \<Rightarrow> (res, self, w))"

subsection \<open>config_command\<close>

definition config_body ::
  "'s library \<Rightarrow> client \<Rightarrow> cmds \<Rightarrow> 's world \<Rightarrow> (exc + pyval) \<times> cmds \<times> 's world" where
  "config_body L self commands w =
     (let w = logger INFO (Connected_to (host (device_info_cisco self))) w;
          w = logger INFO (Applying_commands commands) w
      in case invoke L Enable w of
           (Raise e, w) \<Rightarrow> (Inl e, commands, w)
         | (Ok u, w) \<Rightarrow>
             (let commands = normalize_commands commands
              in if commands = []
                 then (Inr PyNone, Lines commands, logger WARNING No_valid_commands w)
                 else
                   (case invoke L (Send_config_set commands []) w of
                      (Raise e, w) \<Rightarrow> (Inl e, Lines commands, w)
                    | (Ok output, w) \<Rightarrow>
                        (let w = logger INFO Configuration_applied w;
                             w = logger DEBUG (Configuration_output output) w
                         in case invoke L Disconnect w of
                              (Raise e, w) \<Rightarrow> (Inl e, Lines commands, w)
                            | (Ok u, w) \<Rightarrow>
                                (Inr (PyStr output), Lines commands,
                                 logger INFO
                                   (Disconnected_from (host (device_info_linux self))) w)))))"

definition config_command ::
  "'s library \<Rightarrow> client \<Rightarrow> cmds \<Rightarrow> pyval \<Rightarrow> pyval \<Rightarrow> pyval \<Rightarrow> 's world \<Rightarrow>
   (exc + pyval) \<times> client \<times> 's world" where
  "config_command L self commands HOST USERNAME PASSWORD w =
     (let self = set_credentials self HOST USERNAME PASSWORD
      in case except_netmiko self
           (with_ConnectHandler L (device_info_cisco self) (config_body L self commands)
              commands w) of
           (res, w) \<Rightarrow> (res, self, w))"

subsection \<open>ping_cisco_command\<close>

definition ping_body ::
  "'s library \<Rightarrow> client \<Rightarrow> string \<Rightarrow> 's world \<Rightarrow> (exc + pyval) \<times> cmds \<times> 's world" where
  "ping_body L self command w =
     (let w = logger INFO (Connected_to (host (device_info_cisco self))) w;
          w = logger INFO (Sending_ping command) w
      in case invoke L
              (Send_command command
                 [Read_timeout 30, Expect_string ''#'', Strip_prompt False,
                  Strip_command False]) w of
           (Raise e, w) \<Rightarrow> (Inl e, Text command, w)
         | (Ok output, w) \<Rightarrow>
             (if CHR ''!'' \<in> set output
              then (Inr (PyStr output), Text command, w)
              else (Inr (PyStr ''Ping failed. No response received.''), Text command, w)))"

definition ping_cisco_command ::
  "'s library \<Rightarrow> client \<Rightarrow> string \<Rightarrow> pyval \<Rightarrow> pyval \<Rightarrow> pyval \<Rightarrow> 's world \<Rightarrow>
   (exc + pyval) \<times> client \<times> 's world" where
  "ping_cisco_command L self command HOST USERNAME PASSWORD w =
     (if \<not> startswith command ''ping''
      then (Inr (PyStr ''Invalid command. Please use 'ping' command.''), self, w)
      else
        (let self = set_credentials self HOST USERNAME PASSWORD
         in case except_netmiko self
              (with_ConnectHandler L (device_info_cisco self) (ping_body L self command)
                 (Text command) w) of
              (res, w) \<Rightarrow> (res, self, w)))"

subsection \<open>The three operations as one\<close>

text \<open>
  The client has three public operations. To state a property of every operation they
  are gathered into one function of a request.
\<close>

datatype operation = Show string | Configure cmds | Ping string

definition run ::
  "'s library \<Rightarrow> client \<Rightarrow> operation \<Rightarrow> pyval \<Rightarrow> pyval \<Rightarrow> pyval \<Rightarrow> 's world \<Rightarrow>
   (exc + pyval) \<times> client \<times> 's world" where
  "run L self op HOST USERNAME PASSWORD w =
     (case op of
        Show command \<Rightarrow> show_command L self command HOST USERNAME PASSWORD w
      | Configure commands \<Rightarrow> config_command L self commands HOST USERNAME PASSWORD w
      | Ping command \<Rightarrow> ping_cisco_command L self command HOST USERNAME PASSWORD w)"

subsection \<open>Notions of the specification\<close>

text \<open>
  The specification speaks of the leading token of a ping request: the first run of
  characters that are not whitespace (the first element of \<^verbatim>\<open>command.split()\<close>).
\<close>

definition leading_token :: "string \<Rightarrow> string" where
  "leading_token s = takeWhile (\<lambda>c. \<not> py_isspace c) (dropWhile py_isspace s)"

text \<open>
  Two clients agree on everything but the Cisco credentials an operation overwrites:
  the device type, the Linux device record and the API key.
\<close>

definition same_settings :: "client \<Rightarrow> client \<Rightarrow> bool" where
  "same_settings a b =
     (device_type (device_info_cisco a) = device_type (device_info_cisco b)
      \<and> device_info_linux a = device_info_linux b
      \<and> api_key a = api_key b)"

subsection \<open>Observing a run\<close>

text \<open>
  What passed between the client and the library while the world went from \<open>w\<close> to
  \<open>w'\<close>: the calls made since \<open>w\<close>, each with its reply.
\<close>

definition traffic :: "'s world \<Rightarrow> 's world \<Rightarrow> (call \<times> reply) list" where
  "traffic w w' = drop (length (history w)) (history w')"

text \<open>
  The outcome of a \<^verbatim>\<open>try\<close> block follows the exceptions raised inside it: without one
  the block returns, otherwise the last one raised is the one in flight.
\<close>

definition tracks :: "exc + pyval \<Rightarrow> exc list \<Rightarrow> bool" where
  "tracks res fs = (if fs = [] then \<not> isl res else res = Inl (last fs))"

text \<open>The same after the two handlers.\<close>

definition handled :: "exc + pyval \<Rightarrow> exc list \<Rightarrow> bool" where
  "handled res fs =
     (if fs = [] then \<not> isl res
      else (case last fs of
              NetmikoTimeoutException t \<Rightarrow> res = Inr (PyStr ''Timeout error'')
            | NetmikoAuthenticationException t \<Rightarrow> res = Inr (PyStr ''Authentication error'')
            | OtherException t \<Rightarrow> res = Inl (OtherException t)))"

text \<open>
  The deadline a call carries: its \<^verbatim>\<open>read_timeout\<close> keyword argument, when it has one.
\<close>

fun read_timeout :: "kwarg list \<Rightarrow> nat option" where
  "read_timeout [] = None"
| "read_timeout (Read_timeout n # kws) = Some n"
| "read_timeout (kw # kws) = read_timeout kws"

fun deadline :: "call \<Rightarrow> nat option" where
  "deadline (Send_command command kws) = read_timeout kws"
| "deadline (Send_config_set commands kws) = read_timeout kws"
| "deadline c = None"

subsection \<open>Concrete inputs\<close>

text \<open>
  The client built without arguments, as the module's own \<^verbatim>\<open>__main__\<close> block builds
  it, a set of credentials and the Cisco record a call with them connects with, a
  device that answers every call with the same text, a device that cannot be reached,
  and one that refuses enable mode.
\<close>

abbreviation no_client :: client where
  "no_client \<equiv> AgentCiscoClient PyNone PyNone PyNone PyNone"

abbreviation router :: pyval where
  "router \<equiv> PyStr ''10.0.0.1''"

abbreviation admin :: pyval where
  "admin \<equiv> PyStr ''admin''"

abbreviation secret :: pyval where
  "secret \<equiv> PyStr ''secret''"

abbreviation router_info :: device_info where
  "router_info \<equiv>
     \<lparr>device_type = ''cisco_ios'', host = router, username = admin, password = secret\<rparr>"

abbreviation answering :: "string \<Rightarrow> unit library" where
  "answering out \<equiv> device (\<lambda>c. Ok out)"

abbreviation unreachable :: "unit library" where
  "unreachable \<equiv> device (\<lambda>c. Raise (NetmikoTimeoutException ''TCP connection to device failed''))"

abbreviation refusing_enable :: "unit library" where
  "refusing_enable \<equiv>
     device (\<lambda>c. if c = Enable then Raise (NetmikoAuthenticationException ''denied'') else Ok '''')"

lemmas run_simps =
  run_def show_command_def config_command_def ping_cisco_command_def
  with_ConnectHandler_def except_netmiko_def show_body_def config_body_def ping_body_def
  invoke_def logger_def fresh_def device_def set_credentials_def AgentCiscoClient_def
  traffic_def startswith_def normalize_commands_def strip_nonblank_def strip_def
  py_isspace_def split_nl_def splitlines_def linebreak_def leading_token_def Let_def

section \<open>Normalization is idempotent\<close>

lemma dropWhile_fixed: "xs = [] \<or> \<not> P (hd xs) \<Longrightarrow> dropWhile P xs = xs"
  by (cases xs) auto

lemma strip_strip: "strip (strip s) = strip s"
proof -
  let ?t = "dropWhile py_isspace s"
  let ?u = "dropWhile py_isspace (rev ?t)"
  have "rev ?u = [] \<or> \<not> py_isspace (hd (rev ?u))"
  proof (cases "?u = []")
    case True
    then show ?thesis by simp
  next
    case False
    then have "rev ?t \<noteq> []" by (cases "rev ?t") auto
    then have t: "?t \<noteq> []" by simp
    then have "\<not> py_isspace (hd ?t)"
      by (simp add: hd_dropWhile)
    moreover have "last ?u = last (rev ?t)"
      using False by (metis last_appendR takeWhile_dropWhile_id)
    ultimately show ?thesis
      using False t by (simp add: hd_rev last_rev)
  qed
  then have "dropWhile py_isspace (rev ?u) = rev ?u"
    by (rule dropWhile_fixed)
  then show ?thesis
    by (simp add: strip_def)
qed

lemma strip_nonblank_idem: "strip_nonblank (strip_nonblank xs) = strip_nonblank xs"
  by (induction xs) (simp_all add: strip_nonblank_def strip_strip)

section \<open>Facts about the world\<close>

text \<open>
  Logging leaves the library and its history alone; the exceptions of a history are
  collected piece by piece.
\<close>

lemma history_logger [simp]: "history (logger lv m w) = history w"
  by (simp add: logger_def)

lemma lib_state_logger [simp]: "lib_state (logger lv m w) = lib_state w"
  by (simp add: logger_def)

lemma history_log_lines [simp]:
  "history (fold (\<lambda>line. logger lv (f line)) xs w) = history w"
  by (induction xs arbitrary: w) simp_all

lemma lib_state_log_lines [simp]:
  "lib_state (fold (\<lambda>line. logger lv (f line)) xs w) = lib_state w"
  by (induction xs arbitrary: w) simp_all

lemma faults_append [simp]: "faults (h @ h') = faults h @ faults h'"
  by (induction h rule: faults.induct) simp_all

lemma traffic_same:
  "history a = history b \<Longrightarrow> history a' = history b' \<Longrightarrow> traffic a a' = traffic b b'"
  by (simp add: traffic_def)

lemma traffic_refl [simp]: "traffic w w = []"
  by (simp add: traffic_def)

section \<open>The with blocks\<close>

text \<open>
  Each property of a \<^verbatim>\<open>with\<close> block is proved by following every reply the library can
  give to the (at most five) calls of the block.
\<close>

lemma show_try_tracks:
  "with_ConnectHandler L info (show_body L self command) c w = (res, x, w') \<Longrightarrow>
   tracks res (faults (traffic w w'))"
  by (auto simp: with_ConnectHandler_def show_body_def invoke_def Let_def tracks_def traffic_def
      split: prod.splits reply.splits)

lemma config_try_tracks:
  "with_ConnectHandler L info (config_body L self commands) c w = (res, x, w') \<Longrightarrow>
   tracks res (faults (traffic w w'))"
  by (auto simp: with_ConnectHandler_def config_body_def invoke_def Let_def tracks_def traffic_def
      split: prod.splits reply.splits if_splits)

lemma ping_try_tracks:
  "with_ConnectHandler L info (ping_body L self command) c w = (res, x, w') \<Longrightarrow>
   tracks res (faults (traffic w w'))"
  by (auto simp: with_ConnectHandler_def ping_body_def invoke_def Let_def tracks_def traffic_def
      split: prod.splits reply.splits if_splits)

lemma show_try_kwargs:
  "with_ConnectHandler L info (show_body L self command) c w = (res, x, w') \<Longrightarrow>
   (Send_command cmd kws, rp) \<in> set (traffic w w') \<Longrightarrow>
   cmd = command \<and> kws = [Read_timeout 20]"
  by (auto simp: with_ConnectHandler_def show_body_def invoke_def Let_def traffic_def
      split: prod.splits reply.splits)

lemma ping_try_kwargs:
  "with_ConnectHandler L info (ping_body L self command) c w = (res, x, w') \<Longrightarrow>
   (Send_command cmd kws, rp) \<in> set (traffic w w') \<Longrightarrow>
   cmd = command \<and> kws = [Read_timeout 30, Expect_string ''#'', Strip_prompt False, Strip_command False]"
  by (auto simp: with_ConnectHandler_def ping_body_def invoke_def Let_def traffic_def
      split: prod.splits reply.splits if_splits)

lemma config_try_kwargs:
  "with_ConnectHandler L info (config_body L self commands) c w = (res, x, w') \<Longrightarrow>
   (Send_config_set cs kws, rp) \<in> set (traffic w w') \<Longrightarrow>
   cs = normalize_commands commands \<and> cs \<noteq> [] \<and> kws = []"
  by (auto simp: with_ConnectHandler_def config_body_def invoke_def Let_def traffic_def
      split: prod.splits reply.splits if_splits)

lemma config_try_enable_first:
  "with_ConnectHandler L info (config_body L self commands) c w = (res, x, w') \<Longrightarrow>
   traffic w w' = pre @ (Send_config_set cs kws, rp) # post \<Longrightarrow>
   \<exists>u. (Enable, Ok u) \<in> set pre"
  by (auto simp: with_ConnectHandler_def config_body_def invoke_def Let_def traffic_def
      Cons_eq_append_conv
      split: prod.splits reply.splits if_splits)

lemma config_try_empty:
  "with_ConnectHandler L info (config_body L self commands) c w = (res, x, w') \<Longrightarrow>
   normalize_commands commands = [] \<Longrightarrow>
   (map fst (traffic w w') = [ConnectHandler info]
    \<or> map fst (traffic w w') = [ConnectHandler info, Enable, Disconnect])
   \<and> (faults (traffic w w') = [] \<longrightarrow>
        res = Inr PyNone \<and> map fst (traffic w w') = [ConnectHandler info, Enable, Disconnect])"
  by (auto simp: with_ConnectHandler_def config_body_def invoke_def Let_def traffic_def
      split: prod.splits reply.splits if_splits)

lemma ping_try_shape:
  "with_ConnectHandler L info (ping_body L self command) c w = (res, x, w') \<Longrightarrow>
   faults (traffic w w') = [] \<Longrightarrow>
   \<exists>v output u.
     traffic w w' =
       [(ConnectHandler info, Ok v),
        (Send_command command
           [Read_timeout 30, Expect_string ''#'', Strip_prompt False, Strip_command False],
         Ok output),
        (Disconnect, Ok u)]"
  by (auto simp: with_ConnectHandler_def ping_body_def invoke_def Let_def traffic_def
      split: prod.splits reply.splits if_splits)

lemma ping_try_classified:
  "with_ConnectHandler L info (ping_body L self command) c w = (res, x, w') \<Longrightarrow>
   faults (traffic w w') = [] \<Longrightarrow>
   (Send_command cmd kws, Ok output) \<in> set (traffic w w') \<Longrightarrow>
   res = (if CHR ''!'' \<in> set output then Inr (PyStr output)
          else Inr (PyStr ''Ping failed. No response received.''))"
  by (auto simp: with_ConnectHandler_def ping_body_def invoke_def Let_def traffic_def
      split: prod.splits reply.splits if_splits)

section \<open>The handlers\<close>

lemma except_netmiko_history:
  "except_netmiko self (res, x, w) = (res', w') \<Longrightarrow> history w' = history w"
  by (auto simp: except_netmiko_def split: sum.splits exc.splits)

lemma except_netmiko_result:
  "except_netmiko self (res, x, w) = (res', w') \<Longrightarrow>
   res' = (case res of
             Inl (NetmikoTimeoutException t) \<Rightarrow> Inr (PyStr ''Timeout error'')
           | Inl (NetmikoAuthenticationException t) \<Rightarrow> Inr (PyStr ''Authentication error'')
           | Inl (OtherException t) \<Rightarrow> Inl (OtherException t)
           | Inr v \<Rightarrow> Inr v)"
  by (auto simp: except_netmiko_def split: sum.splits exc.splits)

lemma except_netmiko_handled:
  assumes "tracks res fs" and "except_netmiko self (res, x, w) = (res', w')"
  shows "handled res' fs"
  using assms(1) except_netmiko_result [OF assms(2)]
  by (auto simp: tracks_def handled_def split: exc.splits sum.splits)

lemma handled_Nil_Inr [simp]: "handled (Inr v) []"
  by (simp add: handled_def)

section \<open>The operations\<close>

text \<open>
  Every operation is its \<^verbatim>\<open>with\<close> block followed by the handlers; the handlers make
  no call, so the traffic of the operation is the traffic of the block.
\<close>

lemma show_command_try:
  assumes "show_command L self command H U P w = (res, self', w')"
  obtains r x w0 w1 where
    "with_ConnectHandler L (device_info_cisco self') (show_body L self' command)
       (Text command) w0 = (r, x, w1)"
    and "except_netmiko self' (r, x, w1) = (res, w')"
    and "self' = set_credentials self H U P"
    and "traffic w w' = traffic w0 w1"
proof -
  let ?self = "set_credentials self H U P"
  let ?w = "logger INFO (Connecting_to (host (device_info_cisco ?self))) w"
  obtain r x w1 where t: "with_ConnectHandler L (device_info_cisco ?self)
      (show_body L ?self command) (Text command) ?w = (r, x, w1)"
    by (cases "with_ConnectHandler L (device_info_cisco ?self)
      (show_body L ?self command) (Text command) ?w") auto
  from assms t have e: "except_netmiko ?self (r, x, w1) = (res, w')" and s: "self' = ?self"
    by (auto simp: show_command_def Let_def split: prod.splits)
  have "traffic w w' = traffic ?w w1"
    using except_netmiko_history [OF e] by (intro traffic_same) simp_all
  with t e s show thesis
    by (auto intro: that)
qed

lemma config_command_try:
  assumes "config_command L self commands H U P w = (res, self', w')"
  obtains r x w1 where
    "with_ConnectHandler L (device_info_cisco self') (config_body L self' commands)
       commands w = (r, x, w1)"
    and "except_netmiko self' (r, x, w1) = (res, w')"
    and "self' = set_credentials self H U P"
    and "traffic w w' = traffic w w1"
proof -
  let ?self = "set_credentials self H U P"
  obtain r x w1 where t: "with_ConnectHandler L (device_info_cisco ?self)
      (config_body L ?self commands) commands w = (r, x, w1)"
    by (cases "with_ConnectHandler L (device_info_cisco ?self)
      (config_body L ?self commands) commands w") auto
  from assms t have e: "except_netmiko ?self (r, x, w1) = (res, w')" and s: "self' = ?self"
    by (auto simp: config_command_def Let_def split: prod.splits)
  have "traffic w w' = traffic w w1"
    using except_netmiko_history [OF e] by (intro traffic_same) simp_all
  with t e s show thesis
    by (auto intro: that)
qed

lemma ping_cisco_command_try:
  assumes "ping_cisco_command L self command H U P w = (res, self', w')"
    and "startswith command ''ping''"
  obtains r x w1 where
    "with_ConnectHandler L (device_info_cisco self') (ping_body L self' command)
       (Text command) w = (r, x, w1)"
    and "except_netmiko self' (r, x, w1) = (res, w')"
    and "self' = set_credentials self H U P"
    and "traffic w w' = traffic w w1"
proof -
  let ?self = "set_credentials self H U P"
  obtain r x w1 where t: "with_ConnectHandler L (device_info_cisco ?self)
      (ping_body L ?self command) (Text command) w = (r, x, w1)"
    by (cases "with_ConnectHandler L (device_info_cisco ?self)
      (ping_body L ?self command) (Text command) w") auto
  from assms t have e: "except_netmiko ?self (r, x, w1) = (res, w')" and s: "self' = ?self"
    by (auto simp: ping_cisco_command_def Let_def split: prod.splits)
  have "traffic w w' = traffic w w1"
    using except_netmiko_history [OF e] by (intro traffic_same) simp_all
  with t e s show thesis
    by (auto intro: that)
qed

lemma ping_cisco_command_invalid:
  "\<not> startswith command ''ping'' \<Longrightarrow>
   ping_cisco_command L self command H U P w =
     (Inr (PyStr ''Invalid command. Please use 'ping' command.''), self, w)"
  by (simp add: ping_cisco_command_def)

lemma run_handled:
  assumes "run L self op H U P w = (res, self', w')"
  shows "handled res (faults (traffic w w'))"
proof (cases op)
  case (Show command)
  with assms have "show_command L self command H U P w = (res, self', w')"
    by (simp add: run_def)
  then show ?thesis
    by (elim show_command_try) (auto dest!: show_try_tracks intro: except_netmiko_handled)
next
  case (Configure commands)
  with assms have "config_command L self commands H U P w = (res, self', w')"
    by (simp add: run_def)
  then show ?thesis
    by (elim config_command_try) (auto dest!: config_try_tracks intro: except_netmiko_handled)
next
  case (Ping command)
  with assms have p: "ping_cisco_command L self command H U P w = (res, self', w')"
    by (simp add: run_def)
  show ?thesis
  proof (cases "startswith command ''ping''")
    case True
    with p show ?thesis
      by (elim ping_cisco_command_try) (auto dest!: ping_try_tracks intro: except_netmiko_handled)
  next
    case False
    with p show ?thesis
      by (auto simp: ping_cisco_command_invalid)
  qed
qed

lemma set_credentials_same:
  assumes "same_settings a b"
  shows "set_credentials a H U P = set_credentials b H U P"
proof -
  obtain ca la ka where a: "a = \<lparr>device_info_cisco = ca, device_info_linux = la, api_key = ka\<rparr>"
    by (cases a) auto
  obtain cb lb kb where b: "b = \<lparr>device_info_cisco = cb, device_info_linux = lb, api_key = kb\<rparr>"
    by (cases b) auto
  from assms have "device_type ca = device_type cb" "la = lb" "ka = kb"
    by (simp_all add: same_settings_def a b)
  moreover have "ca\<lparr>host := H, username := U, password := P\<rparr>
      = cb\<lparr>host := H, username := U, password := P\<rparr>"
    if "device_type ca = device_type cb"
    using that by (cases ca, cases cb) simp
  ultimately show ?thesis
    by (simp add: set_credentials_def a b)
qed

lemma run_same_settings:
  assumes "same_settings a b"
  shows "fst (run L a op H U P w) = fst (run L b op H U P w)
       \<and> snd (snd (run L a op H U P w)) = snd (snd (run L b op H U P w))"
  using set_credentials_same [OF assms, of H U P]
  by (cases op)
     (simp_all add: run_def show_command_def config_command_def ping_cisco_command_def Let_def
        split: prod.splits)

section \<open>The claims\<close>

subsection \<open>C1: configuration that is empty after normalization\<close>

text \<open>
  Claim C1 says that \<^verbatim>\<open>config_command\<close> rejects a configuration that is empty after
  normalization without attempting a connection. The code normalizes inside the
  \<^verbatim>\<open>with\<close> block, after \<^verbatim>\<open>enable()\<close>: for a block of blank lines and a device that
  answers, the connection is opened, enable mode is entered, the session is closed, and
  the result is \<^verbatim>\<open>None\<close>.
\<close>

theorem config_command_connects_before_validating:
  "normalize_commands (Text '' \<newline>  '') = []
   \<and> map fst (history (snd (snd (config_command (answering '''') no_client (Text '' \<newline>  '') router admin secret (fresh ())))))
       = [ConnectHandler router_info,
          Enable, Disconnect]
   \<and> fst (config_command (answering '''') no_client (Text '' \<newline>  '') router admin secret (fresh ())) = Inr PyNone"
  by (simp add: run_simps)

text \<open>
  Claim C1, as amended. For every configuration input whose normalization is empty,
  \<^verbatim>\<open>config_command\<close> calls \<^verbatim>\<open>ConnectHandler\<close> with the Cisco record holding the
  call's own credentials; its calls to the library are that one alone (the connection
  failed) or the connection, \<^verbatim>\<open>enable()\<close> and one \<^verbatim>\<open>disconnect()\<close>, so no
  configuration line is ever sent; and when the library raises nothing the result is
  \<^verbatim>\<open>None\<close>.
\<close>

theorem config_command_empty_after_connecting:
  assumes "normalize_commands commands = []"
    and "config_command L self commands H U P w = (res, self', w')"
  shows "(map fst (traffic w w') = [ConnectHandler (device_info_cisco self')]
          \<or> map fst (traffic w w') = [ConnectHandler (device_info_cisco self'), Enable, Disconnect])
       \<and> device_info_cisco self' =
           \<lparr>device_type = device_type (device_info_cisco self), host = H, username = U, password = P\<rparr>
       \<and> (faults (traffic w w') = [] \<longrightarrow>
            res = Inr PyNone
            \<and> map fst (traffic w w') = [ConnectHandler (device_info_cisco self'), Enable, Disconnect])"
  using assms(2)
proof (rule config_command_try)
  fix r x w1
  assume t: "with_ConnectHandler L (device_info_cisco self') (config_body L self' commands) commands w = (r, x, w1)"
    and e: "except_netmiko self' (r, x, w1) = (res, w')"
    and s: "self' = set_credentials self H U P"
    and tr: "traffic w w' = traffic w w1"
  note c = config_try_empty [OF t assms(1)]
  have "faults (traffic w w1) = [] \<Longrightarrow> res = Inr PyNone"
    using c except_netmiko_result [OF e] by simp
  moreover have "device_info_cisco self' =
           \<lparr>device_type = device_type (device_info_cisco self), host = H, username = U, password = P\<rparr>"
    by (simp add: s set_credentials_def)
  ultimately show ?thesis
    using c tr by auto
qed

text \<open>
  The amended claim at a list of blank entries, on a device that answers.
\<close>

theorem config_command_empty_after_connecting_witness:
  "normalize_commands (Lines [''   '', '''']) = []
   \<and> fst (config_command (answering ''ok'') no_client (Lines [''   '', '''']) router admin secret (fresh ()))
       = Inr PyNone
   \<and> map fst (traffic (fresh ())
         (snd (snd (config_command (answering ''ok'') no_client (Lines [''   '', '''']) router admin secret (fresh ())))))
       = [ConnectHandler router_info,
          Enable, Disconnect]"
proof -
  let ?c = "config_command (answering ''ok'') no_client (Lines [''   '', '''']) router admin secret (fresh ())"
  have n: "normalize_commands (Lines [''   '', '''']) = []"
    by (simp add: run_simps)
  have c: "?c = (fst ?c, fst (snd ?c), snd (snd ?c))"
    by simp
  have f: "faults (traffic (fresh ()) (snd (snd ?c))) = []"
    by (simp add: run_simps)
  have i: "device_info_cisco (fst (snd ?c))
      = router_info"
    by (simp add: run_simps)
  from config_command_empty_after_connecting [OF n c] f i n show ?thesis
    by simp
qed

subsection \<open>C2: ping requests that are not ping commands\<close>

text \<open>
  Claim C2 says that a ping request whose leading token is not literally the ping verb
  is rejected without opening a session. The code tests the prefix
  (\<^verbatim>\<open>command.startswith("ping")\<close>), not the token: the request \<^verbatim>\<open>pingx 10.0.0.1\<close> has
  the leading token \<^verbatim>\<open>pingx\<close>, and the code connects and sends it to the device.
\<close>

theorem ping_accepts_longer_first_word:
  "leading_token ''pingx 10.0.0.1'' = ''pingx''
   \<and> leading_token ''pingx 10.0.0.1'' \<noteq> ''ping''
   \<and> map fst (history (snd (snd (ping_cisco_command (answering ''.....'') no_client ''pingx 10.0.0.1'' router admin secret (fresh ())))))
       = [ConnectHandler router_info,
          Send_command ''pingx 10.0.0.1''
            [Read_timeout 30, Expect_string ''#'', Strip_prompt False, Strip_command False],
          Disconnect]
   \<and> fst (ping_cisco_command (answering ''.....'') no_client ''pingx 10.0.0.1'' router admin secret (fresh ()))
       = Inr (PyStr ''Ping failed. No response received.'')"
  by (simp add: run_simps)

text \<open>
  Claim C2, as amended. For every ping request that does not start with the four
  characters \<^verbatim>\<open>ping\<close>, \<^verbatim>\<open>ping_cisco_command\<close> returns the invalid-command message at
  once: the client and the world are unchanged, so no call reaches the library and
  nothing is logged.
\<close>

theorem ping_rejects_other_prefixes:
  assumes "\<not> startswith command ''ping''"
  shows "ping_cisco_command L self command H U P w =
           (Inr (PyStr ''Invalid command. Please use 'ping' command.''), self, w)"
  using assms by (simp add: ping_cisco_command_def)

text \<open>
  The amended claim at a request that is a show command.
\<close>

theorem ping_rejects_other_prefixes_witness:
  "\<not> startswith ''show ip route'' ''ping''
   \<and> ping_cisco_command (answering ''up'') no_client ''show ip route'' router admin secret (fresh ())
       = (Inr (PyStr ''Invalid command. Please use 'ping' command.''), no_client, fresh ())"
proof -
  have s: "\<not> startswith ''show ip route'' ''ping''"
    by (simp add: startswith_def)
  from ping_rejects_other_prefixes [OF s] s show ?thesis
    by simp
qed

subsection \<open>C3: the success marker of a ping\<close>

text \<open>
  Claim C3. For every raw output the device gives to an accepted ping request, when the
  library raises nothing: the library is called three times (connect, the ping with its
  keyword arguments, disconnect), the result is the raw output if it contains the
  character \<^verbatim>\<open>!\<close> anywhere and the no-response message otherwise, and the result is the
  no-response message exactly when the output contains no \<^verbatim>\<open>!\<close>.
\<close>

theorem ping_success_marker:
  assumes "startswith command ''ping''"
    and "ping_cisco_command L self command H U P w = (res, self', w')"
    and "faults (traffic w w') = []"
  shows "\<exists>v output u.
           traffic w w' =
             [(ConnectHandler (device_info_cisco self'), Ok v),
              (Send_command command
                 [Read_timeout 30, Expect_string ''#'', Strip_prompt False, Strip_command False],
               Ok output),
              (Disconnect, Ok u)]
           \<and> res = (if CHR ''!'' \<in> set output then Inr (PyStr output)
                    else Inr (PyStr ''Ping failed. No response received.''))
           \<and> (res = Inr (PyStr ''Ping failed. No response received.'')) = (CHR ''!'' \<notin> set output)"
  using assms(2,1)
proof (rule ping_cisco_command_try)
  fix r x w1
  assume t: "with_ConnectHandler L (device_info_cisco self') (ping_body L self' command) (Text command) w = (r, x, w1)"
    and e: "except_netmiko self' (r, x, w1) = (res, w')"
    and tr: "traffic w w' = traffic w w1"
  from assms(3) tr have nf: "faults (traffic w w1) = []"
    by simp
  from ping_try_shape [OF t nf] obtain v out u where
    sh: "traffic w w1 =
       [(ConnectHandler (device_info_cisco self'), Ok v),
        (Send_command command
           [Read_timeout 30, Expect_string ''#'', Strip_prompt False, Strip_command False],
         Ok out),
        (Disconnect, Ok u)]"
    by blast
  then have "(Send_command command
           [Read_timeout 30, Expect_string ''#'', Strip_prompt False, Strip_command False],
         Ok out) \<in> set (traffic w w1)"
    by simp
  from ping_try_classified [OF t nf this]
  have r: "r = (if CHR ''!'' \<in> set out then Inr (PyStr out)
          else Inr (PyStr ''Ping failed. No response received.''))" .
  with except_netmiko_result [OF e] have res: "res = r"
    by (simp split: if_splits)
  have "(res = Inr (PyStr ''Ping failed. No response received.'')) = (CHR ''!'' \<notin> set out)"
    unfolding res r by auto
  with sh tr res r show ?thesis
    by (intro exI [of _ v] exI [of _ out] exI [of _ u]) simp
qed

text \<open>
  The claim on a device that answers five dots: the ping is classified as failed; on a
  device that answers five exclamation marks the raw output comes back.
\<close>

theorem ping_success_marker_witness:
  "startswith ''ping 10.0.0.9'' ''ping''
   \<and> ping_cisco_command (answering ''!!!!!'') no_client ''ping 10.0.0.9'' router admin secret (fresh ())
       = (Inr (PyStr ''!!!!!''),
          set_credentials no_client router admin secret,
          \<lparr>lib_state = (),
           history =
             [(ConnectHandler router_info, Ok ''!!!!!''),
              (Send_command ''ping 10.0.0.9''
                 [Read_timeout 30, Expect_string ''#'', Strip_prompt False, Strip_command False],
               Ok ''!!!!!''),
              (Disconnect, Ok ''!!!!!'')],
           logged = [(INFO, Connected_to router), (INFO, Sending_ping ''ping 10.0.0.9'')]\<rparr>)
   \<and> fst (ping_cisco_command (answering ''.....'') no_client ''ping 10.0.0.9'' router admin secret (fresh ()))
       = Inr (PyStr ''Ping failed. No response received.'')"
proof -
  let ?p = "ping_cisco_command (answering ''.....'') no_client ''ping 10.0.0.9'' router admin secret (fresh ())"
  have s: "startswith ''ping 10.0.0.9'' ''ping''"
    by (simp add: startswith_def)
  have p: "?p = (fst ?p, fst (snd ?p), snd (snd ?p))"
    by simp
  have f: "faults (traffic (fresh ()) (snd (snd ?p))) = []"
    by (simp add: run_simps)
  from ping_success_marker [OF s p f] have "fst ?p = Inr (PyStr ''Ping failed. No response received.'')"
    by (auto simp: run_simps)
  then show ?thesis
    by (simp add: run_simps)
qed

subsection \<open>C4: transport faults are caught\<close>

text \<open>
  Claim C4. For every operation (show, configure, ping), every library and every
  starting world: the operation never lets a \<^verbatim>\<open>NetmikoTimeoutException\<close> or a
  \<^verbatim>\<open>NetmikoAuthenticationException\<close> out, and when the exception in flight at the end
  of the \<^verbatim>\<open>try\<close> block (the last one the library raised) is of one of these two
  classes, the operation returns the string \<^verbatim>\<open>Timeout error\<close>, respectively
  \<^verbatim>\<open>Authentication error\<close>. Exceptions of any other class are not handled by the
  operations and are outside the claim.
\<close>

theorem transport_faults_are_caught:
  assumes "run L self op H U P w = (res, self', w')"
  shows "res \<noteq> Inl (NetmikoTimeoutException t)
       \<and> res \<noteq> Inl (NetmikoAuthenticationException t)
       \<and> (faults (traffic w w') \<noteq> [] \<and> last (faults (traffic w w')) = NetmikoTimeoutException t
            \<longrightarrow> res = Inr (PyStr ''Timeout error''))
       \<and> (faults (traffic w w') \<noteq> [] \<and> last (faults (traffic w w')) = NetmikoAuthenticationException t
            \<longrightarrow> res = Inr (PyStr ''Authentication error''))"
  using run_handled [OF assms]
  by (auto simp: handled_def split: if_splits exc.splits)

text \<open>
  The claim on a device that refuses enable mode with an authentication failure, and
  on a device that cannot be reached.
\<close>

theorem transport_faults_are_caught_witness:
  "fst (run refusing_enable no_client (Configure (Lines [''hostname R1''])) router admin secret (fresh ()))
     = Inr (PyStr ''Authentication error'')
   \<and> faults (traffic (fresh ())
        (snd (snd (run refusing_enable no_client (Configure (Lines [''hostname R1'']))
           router admin secret (fresh ())))))
     = [NetmikoAuthenticationException ''denied'']
   \<and> fst (run unreachable no_client (Show ''show version'') router admin secret (fresh ()))
     = Inr (PyStr ''Timeout error'')
   \<and> faults (traffic (fresh ())
        (snd (snd (run unreachable no_client (Show ''show version'') router admin secret (fresh ())))))
     = [NetmikoTimeoutException ''TCP connection to device failed'']"
proof -
  let ?a = "run refusing_enable no_client (Configure (Lines [''hostname R1''])) router admin secret (fresh ())"
  let ?t = "run unreachable no_client (Show ''show version'') router admin secret (fresh ())"
  have fa: "faults (traffic (fresh ()) (snd (snd ?a))) = [NetmikoAuthenticationException ''denied'']"
    by (simp add: run_simps)
  have ft: "faults (traffic (fresh ()) (snd (snd ?t)))
      = [NetmikoTimeoutException ''TCP connection to device failed'']"
    by (simp add: run_simps)
  have a: "?a = (fst ?a, fst (snd ?a), snd (snd ?a))" and t: "?t = (fst ?t, fst (snd ?t), snd (snd ?t))"
    by simp_all
  from transport_faults_are_caught [OF a, of "''denied''"] fa
  have "fst ?a = Inr (PyStr ''Authentication error'')"
    by simp
  moreover from transport_faults_are_caught [OF t, of "''TCP connection to device failed''"] ft
  have "fst ?t = Inr (PyStr ''Timeout error'')"
    by simp
  ultimately show ?thesis
    using fa ft by simp
qed

subsection \<open>C5: closing the session\<close>

text \<open>
  Claim C5 says that the session is closed exactly once for every opened session. On
  the success path of \<^verbatim>\<open>show_command\<close> and of \<^verbatim>\<open>config_command\<close> the code calls
  \<^verbatim>\<open>connection.disconnect()\<close> itself, and the \<^verbatim>\<open>with\<close> statement then closes the
  session again on exit: \<^verbatim>\<open>disconnect\<close> is called twice. The run below shows it for
  both operations on a device that answers every call.
\<close>

theorem show_command_disconnects_twice:
  "map fst (history (snd (snd (show_command (answering ''Cisco IOS Software'') no_client ''show version''
      router admin secret (fresh ())))))
   = [ConnectHandler router_info,
      Send_command ''show version'' [Read_timeout 20], Disconnect, Disconnect]
   \<and> map fst (history (snd (snd (config_command (answering ''ok'') no_client (Lines [''hostname R1''])
      router admin secret (fresh ())))))
   = [ConnectHandler router_info,
      Enable, Send_config_set [''hostname R1''] [], Disconnect, Disconnect]"
  by (simp add: run_simps)

subsection \<open>C6: deadlines of the device reads\<close>

text \<open>
  Claim C6 says that configuration reads run under a deadline of 20 seconds. The code
  calls \<^verbatim>\<open>send_config_set(commands)\<close> with no \<^verbatim>\<open>read_timeout\<close>: in a configuration run
  the call carries no deadline.
\<close>

theorem configure_passes_no_deadline:
  "map fst (history (snd (snd (config_command (answering ''ok'') no_client (Lines [''hostname R2''])
      router admin secret (fresh ())))))
   = [ConnectHandler router_info,
      Enable, Send_config_set [''hostname R2''] [], Disconnect, Disconnect]
   \<and> deadline (Send_config_set [''hostname R2''] []) = None
   \<and> deadline (Send_config_set [''hostname R2''] []) \<noteq> Some 20"
  by (simp add: run_simps)

text \<open>
  Claim C6, as amended. Every \<^verbatim>\<open>send_command\<close> of \<^verbatim>\<open>show_command\<close> sends the given
  command with \<^verbatim>\<open>read_timeout=20\<close>, every \<^verbatim>\<open>send_command\<close> of
  \<^verbatim>\<open>ping_cisco_command\<close> sends the given command with \<^verbatim>\<open>read_timeout=30\<close>, and every
  \<^verbatim>\<open>send_config_set\<close> of \<^verbatim>\<open>config_command\<close> sends the normalized commands with no
  deadline of its own; and when the exception in flight at the end of an operation is
  the library's timeout, the operation returns \<^verbatim>\<open>Timeout error\<close>. How long the library
  takes to raise it is the library's matter.
\<close>

theorem read_deadlines:
  "((Send_command cmd kws, rp) \<in> set (traffic w (snd (snd (show_command L self command H U P w))))
      \<longrightarrow> cmd = command \<and> deadline (Send_command cmd kws) = Some 20)
   \<and> ((Send_command cmd kws, rp) \<in> set (traffic w (snd (snd (ping_cisco_command L self command H U P w))))
      \<longrightarrow> cmd = command \<and> deadline (Send_command cmd kws) = Some 30)
   \<and> ((Send_config_set cs kws, rp) \<in> set (traffic w (snd (snd (config_command L self commands H U P w))))
      \<longrightarrow> cs = normalize_commands commands \<and> deadline (Send_config_set cs kws) = None)
   \<and> (faults (traffic w (snd (snd (run L self op H U P w)))) \<noteq> []
       \<and> last (faults (traffic w (snd (snd (run L self op H U P w))))) = NetmikoTimeoutException t
      \<longrightarrow> fst (run L self op H U P w) = Inr (PyStr ''Timeout error''))"
proof (intro conjI impI)
  let ?s = "show_command L self command H U P w"
  assume m: "(Send_command cmd kws, rp) \<in> set (traffic w (snd (snd ?s)))"
  have "?s = (fst ?s, fst (snd ?s), snd (snd ?s))"
    by simp
  then have "cmd = command \<and> kws = [Read_timeout 20]"
    using m by (elim show_command_try) (auto dest: show_try_kwargs)
  then show "cmd = command" and "deadline (Send_command cmd kws) = Some 20"
    by simp_all
next
  let ?p = "ping_cisco_command L self command H U P w"
  assume m: "(Send_command cmd kws, rp) \<in> set (traffic w (snd (snd ?p)))"
  have p: "?p = (fst ?p, fst (snd ?p), snd (snd ?p))"
    by simp
  have s: "startswith command ''ping''"
    using m by (cases "startswith command ''ping''") (simp_all add: ping_cisco_command_invalid)
  have "cmd = command
      \<and> kws = [Read_timeout 30, Expect_string ''#'', Strip_prompt False, Strip_command False]"
    using p s m by (elim ping_cisco_command_try) (auto dest: ping_try_kwargs)
  then show "cmd = command" and "deadline (Send_command cmd kws) = Some 30"
    by simp_all
next
  let ?c = "config_command L self commands H U P w"
  assume m: "(Send_config_set cs kws, rp) \<in> set (traffic w (snd (snd ?c)))"
  have "?c = (fst ?c, fst (snd ?c), snd (snd ?c))"
    by simp
  then have "cs = normalize_commands commands \<and> kws = []"
    using m by (elim config_command_try) (auto dest: config_try_kwargs)
  then show "cs = normalize_commands commands" and "deadline (Send_config_set cs kws) = None"
    by simp_all
next
  let ?r = "run L self op H U P w"
  assume f: "faults (traffic w (snd (snd ?r))) \<noteq> []
       \<and> last (faults (traffic w (snd (snd ?r)))) = NetmikoTimeoutException t"
  have "?r = (fst ?r, fst (snd ?r), snd (snd ?r))"
    by simp
  from run_handled [OF this] f show "fst ?r = Inr (PyStr ''Timeout error'')"
    by (simp add: handled_def)
qed

text \<open>
  The amended claim at a show command, a ping and a configuration on a device that
  answers, and at a ping of a device that cannot be reached.
\<close>

theorem read_deadlines_witness:
  "(Send_command ''show version'' [Read_timeout 20], Ok ''up'')
     \<in> set (traffic (fresh ())
          (snd (snd (show_command (answering ''up'') no_client ''show version'' router admin secret (fresh ())))))
   \<and> deadline (Send_command ''show version'' [Read_timeout 20]) = Some 20
   \<and> (Send_command ''ping 10.0.0.9''
         [Read_timeout 30, Expect_string ''#'', Strip_prompt False, Strip_command False], Ok ''up'')
     \<in> set (traffic (fresh ())
          (snd (snd (ping_cisco_command (answering ''up'') no_client ''ping 10.0.0.9'' router admin secret (fresh ())))))
   \<and> deadline (Send_command ''ping 10.0.0.9''
         [Read_timeout 30, Expect_string ''#'', Strip_prompt False, Strip_command False]) = Some 30
   \<and> (Send_config_set [''hostname R1''] [], Ok ''up'')
     \<in> set (traffic (fresh ())
          (snd (snd (config_command (answering ''up'') no_client (Text ''hostname R1'') router admin secret (fresh ())))))
   \<and> deadline (Send_config_set [''hostname R1''] []) = None
   \<and> faults (traffic (fresh ())
        (snd (snd (run unreachable no_client (Ping ''ping 10.0.0.9'') router admin secret (fresh ())))))
     = [NetmikoTimeoutException ''TCP connection to device failed'']
   \<and> fst (run unreachable no_client (Ping ''ping 10.0.0.9'') router admin secret (fresh ()))
     = Inr (PyStr ''Timeout error'')"
proof -
  let ?kw = "[Read_timeout 30, Expect_string ''#'', Strip_prompt False, Strip_command False]"
  let ?s = "show_command (answering ''up'') no_client ''show version'' router admin secret (fresh ())"
  let ?p = "ping_cisco_command (answering ''up'') no_client ''ping 10.0.0.9'' router admin secret (fresh ())"
  let ?c = "config_command (answering ''up'') no_client (Text ''hostname R1'') router admin secret (fresh ())"
  let ?t = "run unreachable no_client (Ping ''ping 10.0.0.9'') router admin secret (fresh ())"
  have s: "(Send_command ''show version'' [Read_timeout 20], Ok ''up'')
      \<in> set (traffic (fresh ()) (snd (snd ?s)))"
    by (simp add: run_simps)
  have p: "(Send_command ''ping 10.0.0.9'' ?kw, Ok ''up'') \<in> set (traffic (fresh ()) (snd (snd ?p)))"
    by (simp add: run_simps)
  have c: "(Send_config_set [''hostname R1''] [], Ok ''up'') \<in> set (traffic (fresh ()) (snd (snd ?c)))"
    by (simp add: run_simps)
  have t: "faults (traffic (fresh ()) (snd (snd ?t)))
      = [NetmikoTimeoutException ''TCP connection to device failed'']"
    by (simp add: run_simps)
  from s read_deadlines
    [where L = "answering ''up''" and self = no_client and command = "''show version''"
       and H = router and U = admin and P = secret and w = "fresh ()"
       and cmd = "''show version''" and kws = "[Read_timeout 20]" and rp = "Ok ''up''"]
  have "deadline (Send_command ''show version'' [Read_timeout 20]) = Some 20"
    by blast
  moreover from p read_deadlines
    [where L = "answering ''up''" and self = no_client and command = "''ping 10.0.0.9''"
       and H = router and U = admin and P = secret and w = "fresh ()"
       and cmd = "''ping 10.0.0.9''" and kws = ?kw and rp = "Ok ''up''"]
  have "deadline (Send_command ''ping 10.0.0.9'' ?kw) = Some 30"
    by blast
  moreover from c read_deadlines
    [where L = "answering ''up''" and self = no_client and commands = "Text ''hostname R1''"
       and H = router and U = admin and P = secret and w = "fresh ()"
       and cs = "[''hostname R1'']" and kws = "[]" and rp = "Ok ''up''"]
  have "deadline (Send_config_set [''hostname R1''] []) = None"
    by blast
  moreover from t read_deadlines
    [where L = unreachable and self = no_client and op = "Ping ''ping 10.0.0.9''"
       and H = router and U = admin and P = secret and w = "fresh ()"
       and t = "''TCP connection to device failed''"]
  have "fst ?t = Inr (PyStr ''Timeout error'')"
    by simp
  ultimately show ?thesis
    using s p c t by simp
qed

subsection \<open>C7: normalization of a block and of its lines\<close>

text \<open>
  Claim C7. A configuration given as one multi-line text block and the same
  configuration given as the list of the block's lines normalize to the same command
  list, and normalizing a list that is already normalized gives it back unchanged.
\<close>

theorem normalize_commands_block_or_lines:
  "normalize_commands (Text s) = normalize_commands (Lines (split_nl s))
   \<and> normalize_commands (Lines (normalize_commands commands)) = normalize_commands commands"
  by (cases commands) (simp_all add: normalize_commands_def strip_nonblank_idem)

subsection \<open>C8: what an operation leaves in the client\<close>

text \<open>
  Claim C8 says that no operation changes a field of the client a later call can
  observe, the stored credentials in particular. Every operation starts by overwriting
  the host, username and password of \<^verbatim>\<open>device_info_cisco\<close>: after a show command the
  stored Cisco credentials are those of the call, not those of the constructor.
\<close>

theorem show_command_changes_stored_credentials:
  "device_info_cisco (AgentCiscoClient (PyStr ''10.0.0.7'') admin secret PyNone)
     = \<lparr>device_type = ''cisco_ios'', host = PyStr ''10.0.0.7'', username = admin, password = secret\<rparr>
   \<and> device_info_cisco (fst (snd (show_command (answering ''up'')
        (AgentCiscoClient (PyStr ''10.0.0.7'') admin secret PyNone) ''show version''
        router (PyStr ''operator'') (PyStr ''hunter2'') (fresh ()))))
     = \<lparr>device_type = ''cisco_ios'', host = router, username = PyStr ''operator'',
        password = PyStr ''hunter2''\<rparr>"
  by (simp add: run_simps)

text \<open>
  Claim C8, as amended. After \<^verbatim>\<open>show_command\<close> and \<^verbatim>\<open>config_command\<close>, and after a
  \<^verbatim>\<open>ping_cisco_command\<close> whose request starts with \<^verbatim>\<open>ping\<close>, the client is the old one
  with the host, username and password of \<^verbatim>\<open>device_info_cisco\<close> replaced by the call's
  arguments (a rejected ping leaves the client as it was); the device type, the Linux
  record and the API key are unchanged. Calls are still independent of one another: two
  clients that differ only in these stored Cisco credentials, such as the client before
  and after any call, give the same result and the same world for the same call.
\<close>

theorem operations_overwrite_cisco_credentials:
  "fst (snd (show_command L self command H U P w)) = set_credentials self H U P
   \<and> fst (snd (config_command L self commands H U P w)) = set_credentials self H U P
   \<and> fst (snd (ping_cisco_command L self command H U P w))
       = (if startswith command ''ping'' then set_credentials self H U P else self)
   \<and> device_info_cisco (set_credentials self H U P)
       = \<lparr>device_type = device_type (device_info_cisco self), host = H, username = U, password = P\<rparr>
   \<and> same_settings (set_credentials self H U P) self
   \<and> (same_settings a b \<longrightarrow>
        fst (run L a op H U P w) = fst (run L b op H U P w)
        \<and> snd (snd (run L a op H U P w)) = snd (snd (run L b op H U P w)))"
proof (intro conjI impI)
  show "fst (snd (show_command L self command H U P w)) = set_credentials self H U P"
    by (simp add: show_command_def Let_def split: prod.splits)
  show "fst (snd (config_command L self commands H U P w)) = set_credentials self H U P"
    by (simp add: config_command_def Let_def split: prod.splits)
  show "fst (snd (ping_cisco_command L self command H U P w))
       = (if startswith command ''ping'' then set_credentials self H U P else self)"
    by (simp add: ping_cisco_command_def Let_def split: prod.splits)
  show "device_info_cisco (set_credentials self H U P)
       = \<lparr>device_type = device_type (device_info_cisco self), host = H, username = U, password = P\<rparr>"
    by (simp add: set_credentials_def)
  show "same_settings (set_credentials self H U P) self"
    by (simp add: same_settings_def set_credentials_def)
next
  assume s: "same_settings a b"
  from run_same_settings [OF s, of L op H U P w]
  show "fst (run L a op H U P w) = fst (run L b op H U P w)"
    and "snd (snd (run L a op H U P w)) = snd (snd (run L b op H U P w))"
    by simp_all
qed

text \<open>
  The amended claim at a ping that follows a show command: it returns what it returns
  on the client that made no call before.
\<close>

theorem operations_overwrite_cisco_credentials_witness:
  "same_settings
     (fst (snd (show_command (answering ''!!!!!'') no_client ''show version'' router admin secret (fresh ()))))
     no_client
   \<and> fst (run (answering ''!!!!!'')
         (fst (snd (show_command (answering ''!!!!!'') no_client ''show version'' router admin secret (fresh ()))))
         (Ping ''ping 10.0.0.9'') router admin secret (fresh ()))
     = fst (run (answering ''!!!!!'') no_client
         (Ping ''ping 10.0.0.9'') router admin secret (fresh ()))
   \<and> fst (run (answering ''!!!!!'') no_client
         (Ping ''ping 10.0.0.9'') router admin secret (fresh ()))
     = Inr (PyStr ''!!!!!'')"
proof -
  let ?after = "fst (snd (show_command (answering ''!!!!!'') no_client ''show version'' router admin secret (fresh ())))"
  have s: "same_settings ?after no_client"
    by (simp add: run_simps same_settings_def)
  have "fst (run (answering ''!!!!!'') no_client
         (Ping ''ping 10.0.0.9'') router admin secret (fresh ())) = Inr (PyStr ''!!!!!'')"
    by (simp add: run_simps)
  note v = this
  from operations_overwrite_cisco_credentials
    [where a = ?after and b = no_client and L = "answering ''!!!!!''"
       and op = "Ping ''ping 10.0.0.9''" and H = router and U = admin and P = secret
       and w = "fresh ()"]
  have "same_settings ?after no_client \<longrightarrow>
      fst (run (answering ''!!!!!'') ?after (Ping ''ping 10.0.0.9'') router admin secret (fresh ()))
      = fst (run (answering ''!!!!!'') no_client (Ping ''ping 10.0.0.9'') router admin secret (fresh ()))"
    by blast
  with s have "fst (run (answering ''!!!!!'') ?after (Ping ''ping 10.0.0.9'') router admin secret (fresh ()))
      = fst (run (answering ''!!!!!'') no_client (Ping ''ping 10.0.0.9'') router admin secret (fresh ()))"
    by (rule rev_mp)
  with s v show ?thesis
    by (intro conjI)
qed

subsection \<open>C9: enable mode before configuration\<close>

text \<open>
  Claim C9. In every run of \<^verbatim>\<open>config_command\<close>, whatever the library replies, every
  \<^verbatim>\<open>send_config_set\<close> call is preceded by a call of \<^verbatim>\<open>enable()\<close> that returned
  without raising: configuration lines are never sent to a session that was not
  elevated.
\<close>

theorem enable_before_configuration:
  assumes "config_command L self commands H U P w = (res, self', w')"
    and "traffic w w' = pre @ (Send_config_set cs kws, rp) # post"
  shows "\<exists>u. (Enable, Ok u) \<in> set pre"
  using assms(1)
proof (rule config_command_try)
  fix r x w1
  assume t: "with_ConnectHandler L (device_info_cisco self') (config_body L self' commands) commands w = (r, x, w1)"
    and tr: "traffic w w' = traffic w w1"
  from assms(2) tr have "traffic w w1 = pre @ (Send_config_set cs kws, rp) # post"
    by simp
  then show ?thesis
    by (rule config_try_enable_first [OF t])
qed

text \<open>
  The claim at a two-line configuration block on a device that answers.
\<close>

theorem enable_before_configuration_witness:
  "traffic (fresh ())
     (snd (snd (config_command (answering ''ok'') no_client (Text ''interface Gi0/1\<newline> no shutdown'')
        router admin secret (fresh ()))))
   = [(ConnectHandler router_info, Ok ''ok''),
      (Enable, Ok ''ok'')]
     @ (Send_config_set [''interface Gi0/1'', ''no shutdown''] [], Ok ''ok'')
     # [(Disconnect, Ok ''ok''), (Disconnect, Ok ''ok'')]
   \<and> (\<exists>u. (Enable, Ok u) \<in> set
        [(ConnectHandler router_info, Ok ''ok''),
         (Enable, Ok ''ok'')])"
proof -
  let ?c = "config_command (answering ''ok'') no_client (Text ''interface Gi0/1\<newline> no shutdown'')
        router admin secret (fresh ())"
  have c: "?c = (fst ?c, fst (snd ?c), snd (snd ?c))"
    by simp
  have t: "traffic (fresh ()) (snd (snd ?c))
   = [(ConnectHandler router_info, Ok ''ok''),
      (Enable, Ok ''ok'')]
     @ (Send_config_set [''interface Gi0/1'', ''no shutdown''] [], Ok ''ok'')
     # [(Disconnect, Ok ''ok''), (Disconnect, Ok ''ok'')]"
    by (simp add: run_simps)
  from enable_before_configuration [OF c t] t show ?thesis
    by blast
qed

subsection \<open>C10: the credentials given to the constructor\<close>

text \<open>
  Claim C10 says that the credentials given to the constructor never influence an
  operation. The message \<^verbatim>\<open>Disconnected from ...\<close> of \<^verbatim>\<open>show_command\<close> (and of
  \<^verbatim>\<open>config_command\<close>) reads the host of \<^verbatim>\<open>device_info_linux\<close>, which only the
  constructor sets, where every other message reads \<^verbatim>\<open>device_info_cisco\<close>: two
  clients built with different hosts return the same result for the same call, but log
  different lines.
\<close>

theorem constructor_host_reaches_the_log:
  "fst (show_command (answering ''up'') (AgentCiscoClient (PyStr ''192.0.2.1'') admin secret PyNone)
          ''show version'' router admin secret (fresh ()))
   = fst (show_command (answering ''up'') (AgentCiscoClient (PyStr ''192.0.2.2'') admin secret PyNone)
          ''show version'' router admin secret (fresh ()))
   \<and> last (logged (snd (snd (show_command (answering ''up'')
          (AgentCiscoClient (PyStr ''192.0.2.1'') admin secret PyNone)
          ''show version'' router admin secret (fresh ())))))
       = (INFO, Disconnected_from (PyStr ''192.0.2.1''))
   \<and> last (logged (snd (snd (show_command (answering ''up'')
          (AgentCiscoClient (PyStr ''192.0.2.2'') admin secret PyNone)
          ''show version'' router admin secret (fresh ())))))
       = (INFO, Disconnected_from (PyStr ''192.0.2.2''))"
  by (simp add: run_simps)

section \<open>Further properties\<close>

subsection \<open>What the constructor credentials cannot influence\<close>

lemma except_netmiko_fst:
  "fst (except_netmiko a (r, x, w)) = fst (except_netmiko b (r, y, v))"
  by (simp add: except_netmiko_def split: sum.splits exc.splits)

lemma except_netmiko_seen:
  "history (snd (except_netmiko a (r, x, w))) = history w
   \<and> lib_state (snd (except_netmiko a (r, x, w))) = lib_state w"
  by (simp add: except_netmiko_def split: sum.splits exc.splits)

lemma show_try_parametric:
  "history w = history v \<Longrightarrow> lib_state w = lib_state v \<Longrightarrow>
   fst (with_ConnectHandler L info (show_body L a command) c w)
     = fst (with_ConnectHandler L info (show_body L b command) c v)
   \<and> history (snd (snd (with_ConnectHandler L info (show_body L a command) c w)))
     = history (snd (snd (with_ConnectHandler L info (show_body L b command) c v)))
   \<and> lib_state (snd (snd (with_ConnectHandler L info (show_body L a command) c w)))
     = lib_state (snd (snd (with_ConnectHandler L info (show_body L b command) c v)))"
  by (auto simp: with_ConnectHandler_def show_body_def invoke_def Let_def
      split: prod.splits reply.splits)

lemma config_try_parametric:
  "history w = history v \<Longrightarrow> lib_state w = lib_state v \<Longrightarrow>
   fst (with_ConnectHandler L info (config_body L a commands) c w)
     = fst (with_ConnectHandler L info (config_body L b commands) c v)
   \<and> history (snd (snd (with_ConnectHandler L info (config_body L a commands) c w)))
     = history (snd (snd (with_ConnectHandler L info (config_body L b commands) c v)))
   \<and> lib_state (snd (snd (with_ConnectHandler L info (config_body L a commands) c w)))
     = lib_state (snd (snd (with_ConnectHandler L info (config_body L b commands) c v)))"
  by (auto simp: with_ConnectHandler_def config_body_def invoke_def Let_def
      split: prod.splits reply.splits)

lemma ping_try_parametric:
  "history w = history v \<Longrightarrow> lib_state w = lib_state v \<Longrightarrow>
   fst (with_ConnectHandler L info (ping_body L a command) c w)
     = fst (with_ConnectHandler L info (ping_body L b command) c v)
   \<and> history (snd (snd (with_ConnectHandler L info (ping_body L a command) c w)))
     = history (snd (snd (with_ConnectHandler L info (ping_body L b command) c v)))
   \<and> lib_state (snd (snd (with_ConnectHandler L info (ping_body L a command) c w)))
     = lib_state (snd (snd (with_ConnectHandler L info (ping_body L b command) c v)))"
  by (auto simp: with_ConnectHandler_def ping_body_def invoke_def Let_def
      split: prod.splits reply.splits)

lemma cisco_record_same:
  "device_type (device_info_cisco a) = device_type (device_info_cisco b) \<Longrightarrow>
   device_info_cisco (set_credentials a H U P) = device_info_cisco (set_credentials b H U P)"
  by (cases "device_info_cisco a", cases "device_info_cisco b") (simp add: set_credentials_def)

lemma handlers_parametric:
  assumes "fst ta = fst tb \<and> history (snd (snd ta)) = history (snd (snd tb))
      \<and> lib_state (snd (snd ta)) = lib_state (snd (snd tb))"
  shows "fst (except_netmiko a ta) = fst (except_netmiko b tb)
       \<and> history (snd (except_netmiko a ta)) = history (snd (except_netmiko b tb))
       \<and> lib_state (snd (except_netmiko a ta)) = lib_state (snd (except_netmiko b tb))"
proof -
  obtain ra xa va where ta: "ta = (ra, xa, va)"
    by (cases ta) auto
  obtain rb xb vb where tb: "tb = (rb, xb, vb)"
    by (cases tb) auto
  from assms show ?thesis
    unfolding ta tb
    using except_netmiko_fst [of a rb xa va b xb vb]
      except_netmiko_seen [of a rb xa va] except_netmiko_seen [of b rb xb vb]
    by simp
qed

lemma run_parametric:
  assumes "device_type (device_info_cisco a) = device_type (device_info_cisco b)"
  shows "fst (run L a op H U P w) = fst (run L b op H U P w)
       \<and> history (snd (snd (run L a op H U P w))) = history (snd (snd (run L b op H U P w)))
       \<and> lib_state (snd (snd (run L a op H U P w))) = lib_state (snd (snd (run L b op H U P w)))"
proof (cases op)
  case (Show command)
  from handlers_parametric [OF show_try_parametric [OF refl refl],
      of "set_credentials a H U P" L _ "set_credentials a H U P" command _ _
         "set_credentials b H U P" "set_credentials b H U P"]
  show ?thesis
    by (simp add: Show run_def show_command_def Let_def case_prod_unfold
        cisco_record_same [OF assms])
next
  case (Configure commands)
  from handlers_parametric [OF config_try_parametric [OF refl refl],
      of "set_credentials a H U P" L _ "set_credentials a H U P" commands _ _
         "set_credentials b H U P" "set_credentials b H U P"]
  show ?thesis
    by (simp add: Configure run_def config_command_def Let_def case_prod_unfold
        cisco_record_same [OF assms])
next
  case (Ping command)
  from handlers_parametric [OF ping_try_parametric [OF refl refl],
      of "set_credentials a H U P" L _ "set_credentials a H U P" command _ _
         "set_credentials b H U P" "set_credentials b H U P"]
  show ?thesis
    by (simp add: Ping run_def ping_cisco_command_def Let_def case_prod_unfold
        cisco_record_same [OF assms])
qed

text \<open>
  For every operation and every library, two clients built by the constructor with
  any credentials and API keys return the same result for the same call, make the same
  calls to the library with the same replies, and leave the library in the same state:
  the constructor's credentials reach neither the device nor the caller.
\<close>

theorem constructor_credentials_never_reach_the_device:
  "fst (run L (AgentCiscoClient h1 u1 p1 k1) op H U P w)
     = fst (run L (AgentCiscoClient h2 u2 p2 k2) op H U P w)
   \<and> traffic w (snd (snd (run L (AgentCiscoClient h1 u1 p1 k1) op H U P w)))
     = traffic w (snd (snd (run L (AgentCiscoClient h2 u2 p2 k2) op H U P w)))
   \<and> lib_state (snd (snd (run L (AgentCiscoClient h1 u1 p1 k1) op H U P w)))
     = lib_state (snd (snd (run L (AgentCiscoClient h2 u2 p2 k2) op H U P w)))"
  using run_parametric [of "AgentCiscoClient h1 u1 p1 k1" "AgentCiscoClient h2 u2 p2 k2" L op H U P w]
  by (simp add: AgentCiscoClient_def traffic_def)

subsection \<open>Opened sessions are closed\<close>

lemma show_try_closes:
  "with_ConnectHandler L info (show_body L self command) c w = (res, x, w') \<Longrightarrow>
   (ConnectHandler i, Ok v) \<in> set (traffic w w') \<Longrightarrow>
   count_list (map fst (traffic w w')) Disconnect = 1
   \<or> count_list (map fst (traffic w w')) Disconnect = 2"
  by (auto simp: with_ConnectHandler_def show_body_def invoke_def Let_def traffic_def
      split: prod.splits reply.splits)

lemma config_try_closes:
  "with_ConnectHandler L info (config_body L self commands) c w = (res, x, w') \<Longrightarrow>
   (ConnectHandler i, Ok v) \<in> set (traffic w w') \<Longrightarrow>
   count_list (map fst (traffic w w')) Disconnect = 1
   \<or> count_list (map fst (traffic w w')) Disconnect = 2"
  by (auto simp: with_ConnectHandler_def config_body_def invoke_def Let_def traffic_def
      split: prod.splits reply.splits if_splits)

lemma ping_try_closes:
  "with_ConnectHandler L info (ping_body L self command) c w = (res, x, w') \<Longrightarrow>
   (ConnectHandler i, Ok v) \<in> set (traffic w w') \<Longrightarrow>
   count_list (map fst (traffic w w')) Disconnect = 1"
  by (auto simp: with_ConnectHandler_def ping_body_def invoke_def Let_def traffic_def
      split: prod.splits reply.splits if_splits)

text \<open>
  For every operation and every library, when \<^verbatim>\<open>ConnectHandler\<close> returned a
  connection, \<^verbatim>\<open>disconnect\<close> is called once or twice before the operation ends, on
  every path, and exactly once by \<^verbatim>\<open>ping_cisco_command\<close>: no session is left open.
\<close>

theorem opened_sessions_are_closed:
  assumes "run L self op H U P w = (res, self', w')"
    and "(ConnectHandler i, Ok v) \<in> set (traffic w w')"
  shows "(count_list (map fst (traffic w w')) Disconnect = 1
          \<or> count_list (map fst (traffic w w')) Disconnect = 2)
       \<and> (case op of Ping command \<Rightarrow> count_list (map fst (traffic w w')) Disconnect = 1
           | _ \<Rightarrow> True)"
proof (cases op)
  case (Show command)
  with assms(1) have "show_command L self command H U P w = (res, self', w')"
    by (simp add: run_def)
  then show ?thesis
    using assms(2) Show by (elim show_command_try) (auto dest: show_try_closes)
next
  case (Configure commands)
  with assms(1) have "config_command L self commands H U P w = (res, self', w')"
    by (simp add: run_def)
  then show ?thesis
    using assms(2) Configure by (elim config_command_try) (auto dest: config_try_closes)
next
  case (Ping command)
  with assms(1) have p: "ping_cisco_command L self command H U P w = (res, self', w')"
    by (simp add: run_def)
  have s: "startswith command ''ping''"
    using p assms(2)
    by (cases "startswith command ''ping''") (auto simp: ping_cisco_command_invalid)
  from p s show ?thesis
    using assms(2) Ping by (elim ping_cisco_command_try) (auto dest: ping_try_closes)
qed

text \<open>
  The property at a ping on a device that answers.
\<close>

theorem opened_sessions_are_closed_witness:
  "(ConnectHandler router_info, Ok ''!!!!!'')
     \<in> set (traffic (fresh ())
          (snd (snd (run (answering ''!!!!!'') no_client (Ping ''ping 10.0.0.9'') router admin secret (fresh ())))))
   \<and> count_list (map fst (traffic (fresh ())
          (snd (snd (run (answering ''!!!!!'') no_client (Ping ''ping 10.0.0.9'') router admin secret (fresh ()))))))
        Disconnect = 1"
proof -
  let ?r = "run (answering ''!!!!!'') no_client (Ping ''ping 10.0.0.9'') router admin secret (fresh ())"
  have r: "?r = (fst ?r, fst (snd ?r), snd (snd ?r))"
    by simp
  have c: "(ConnectHandler router_info, Ok ''!!!!!'')
     \<in> set (traffic (fresh ()) (snd (snd ?r)))"
    by (simp add: run_simps)
  from opened_sessions_are_closed [OF r c] c show ?thesis
    by simp
qed

end
